theory Spec2Isabelle
  imports Main "HOL-Library.Sublist"
begin

section \<open>Python strings and the string operations the program uses\<close>

text \<open>
  A Python \<open>str\<close> is a sequence of Unicode code points, so a string is modelled as a list
  of code points (natural numbers), not as a list of bytes: \<open>str.strip\<close> removes the
  code points U+0085 and U+00A0, which as bytes occur inside UTF-8 sequences of other
  characters. \<open>ascii\<close> turns an Isabelle string literal into its code points; the
  non-ASCII letters of the Vietnamese literals are written as code point numbers.
\<close>

type_synonym pystr = "nat list"

definition ascii :: "string \<Rightarrow> pystr" where
  "ascii s = map of_char s"

text \<open>
  \<open>str.isspace\<close> on one code point (CPython 3.11, Unicode 14): U+0009..U+000D,
  U+001C..U+0020, U+0085, U+00A0, U+1680, U+2000..U+200A, U+2028, U+2029, U+202F,
  U+205F, U+3000.
\<close>

definition isspace :: "nat \<Rightarrow> bool" where
  "isspace c =
     ((9 \<le> c \<and> c \<le> 13) \<or> (28 \<le> c \<and> c \<le> 32) \<or> c = 133 \<or> c = 160 \<or> c = 5760
      \<or> (8192 \<le> c \<and> c \<le> 8202) \<or> c = 8232 \<or> c = 8233 \<or> c = 8239 \<or> c = 8287
      \<or> c = 12288)"

text \<open>\<open>s.strip()\<close>: drop the leading and the trailing whitespace.\<close>

definition strip :: "pystr \<Rightarrow> pystr" where
  "strip s = rev (dropWhile isspace (rev (dropWhile isspace s)))"

text \<open>
  \<open>s.split(sep)\<close> for a one-character separator: a scan that closes the current piece
  at every separator; the empty string gives one empty piece.
\<close>

fun split_from :: "pystr \<Rightarrow> nat \<Rightarrow> pystr \<Rightarrow> pystr list" where
  "split_from cur sep [] = [cur]"
| "split_from cur sep (c # cs) =
     (if c = sep then cur # split_from [] sep cs else split_from (cur @ [c]) sep cs)"

definition py_split :: "nat \<Rightarrow> pystr \<Rightarrow> pystr list" where
  "py_split sep s = split_from [] sep s"

text \<open>\<open>s.replace(old, new)\<close> for one-character \<open>old\<close> and \<open>new\<close>.\<close>

definition py_replace :: "nat \<Rightarrow> nat \<Rightarrow> pystr \<Rightarrow> pystr" where
  "py_replace old new s = map (\<lambda>c. if c = old then new else c) s"

text \<open>\<open>sep.join(xs)\<close>.\<close>

fun py_join :: "pystr \<Rightarrow> pystr list \<Rightarrow> pystr" where
  "py_join sep [] = []"
| "py_join sep [x] = x"
| "py_join sep (x # y # ys) = x @ sep @ py_join sep (y # ys)"

text \<open>\<open>s.startswith(p)\<close>.\<close>

definition startswith :: "pystr \<Rightarrow> pystr \<Rightarrow> bool" where
  "startswith s p = (take (length p) s = p)"

text \<open>The comprehension \<open>[x.strip() for x in xs if x.strip()]\<close>.\<close>

definition stripped_nonempty :: "pystr list \<Rightarrow> pystr list" where
  "stripped_nonempty xs = map strip (filter (\<lambda>x. strip x \<noteq> []) xs)"

text \<open>\<open>str(n)\<close> for an integer: decimal digits, with a minus sign when negative.\<close>

fun str_nat :: "nat \<Rightarrow> pystr" where
  "str_nat n = (if n < 10 then [48 + n] else str_nat (n div 10) @ [48 + n mod 10])"

declare str_nat.simps [simp del]

definition str_int :: "int \<Rightarrow> pystr" where
  "str_int i = (if i < 0 then 45 # str_nat (nat (- i)) else str_nat (nat i))"

section \<open>Exceptions\<close>

text \<open>
  Every exception the program can meet is an instance of \<open>Exception\<close>, so every
  \<open>except Exception\<close> clause catches all of them. Each carries its message, the value
  of \<open>str(e)\<close>. \<open>External\<close> is any exception raised inside a library or service the
  program calls.
\<close>

datatype exn =
    RuntimeError pystr
  | IndexError pystr
  | KeyError pystr
  | TypeError pystr
  | AttributeError pystr
  | External pystr

fun str_exn :: "exn \<Rightarrow> pystr" where
  "str_exn (RuntimeError m) = m"
| "str_exn (IndexError m) = m"
| "str_exn (KeyError m) = m"
| "str_exn (TypeError m) = m"
| "str_exn (AttributeError m) = m"
| "str_exn (External m) = m"

text \<open>\<open>xs[i]\<close> for \<open>i \<ge> 0\<close>: IndexError out of range.\<close>

definition py_index :: "'a list \<Rightarrow> nat \<Rightarrow> exn + 'a" where
  "py_index xs i =
     (if i < length xs then Inr (xs ! i) else Inl (IndexError (ascii ''list index out of range'')))"

section \<open>The segmenter: \<open>split_script_to_segments\<close>\<close>

text \<open>
  A segment is a dictionary with the keys role, text and duration, to which the timing
  loop adds start and end. The field names \<open>text'\<close> and \<open>end'\<close> carry a prime because
  \<open>text\<close> and \<open>end\<close> are reserved words.
\<close>

record slot =
  role :: pystr
  text' :: pystr
  duration :: int

record segment = slot +
  start :: int
  end' :: int

text \<open>
  The inner loop \<open>for s in sents: if len(points) < 3: points.append(s)\<close> and the outer
  loop over the middle lines.
\<close>

fun append_points :: "pystr list \<Rightarrow> pystr list \<Rightarrow> pystr list" where
  "append_points points [] = points"
| "append_points points (s # sents) =
     append_points (if length points < 3 then points @ [s] else points) sents"

fun collect_points :: "pystr list \<Rightarrow> pystr list \<Rightarrow> pystr list" where
  "collect_points points [] = points"
| "collect_points points (p # middle) =
     collect_points (append_points points (stripped_nonempty (py_split 46 p))) middle"

text \<open>\<open>while len(points) < 3: points.append("")\<close>.\<close>

function pad_points :: "pystr list \<Rightarrow> pystr list" where
  "pad_points points = (if length points < 3 then pad_points (points @ [[]]) else points)"
  by pat_completeness auto
termination
  by (relation "measure (\<lambda>points. 3 - length points)") auto

declare pad_points.simps [simp del]

text \<open>
  \<open>for i in range(3): segs.append({'role': f'point{i+1}', 'text': points[i],
  'duration': 15})\<close>; the subscript raises IndexError when out of range.
\<close>

fun point_slots :: "pystr list \<Rightarrow> nat list \<Rightarrow> exn + slot list" where
  "point_slots points [] = Inr []"
| "point_slots points (i # is) =
     (case py_index points i of
        Inl e \<Rightarrow> Inl e
      | Inr t \<Rightarrow>
          (case point_slots points is of
             Inl e \<Rightarrow> Inl e
           | Inr ss \<Rightarrow>
               Inr (\<lparr>role = ascii ''point'' @ str_int (int i + 1), text' = t, duration = 15\<rparr>
                    # ss)))"

text \<open>
  The timing loop: \<open>s['start'] = cur; s['end'] = cur + s['duration']; cur = s['end']\<close>.
\<close>

fun assign_times :: "int \<Rightarrow> slot list \<Rightarrow> segment list" where
  "assign_times cur [] = []"
| "assign_times cur (s # segs) =
     (let s' = \<lparr>role = role s, text' = text' s, duration = duration s,
                start = cur, end' = cur + duration s\<rparr>
      in s' # assign_times (end' s') segs)"

definition split_script_to_segments :: "pystr \<Rightarrow> pystr \<Rightarrow> exn + segment list" where
  "split_script_to_segments script_text lang =
     (let parts = stripped_nonempty (py_split 10 script_text);
          hook = (if parts \<noteq> [] then parts ! 0 else []);
          middle = (if length parts > 2 then butlast (drop 1 parts) else drop 1 parts);
          cta = (if length parts > 1 then last parts else []);
          points = pad_points (collect_points [] middle)
      in case point_slots points [0..<3] of
           Inl e \<Rightarrow> Inl e
         | Inr pts \<Rightarrow>
             Inr (assign_times 0
                   ([\<lparr>role = ascii ''hook'', text' = hook, duration = 8\<rparr>] @ pts
                    @ [\<lparr>role = ascii ''cta'', text' = cta, duration = 7\<rparr>])))"

section \<open>The fallback synthesizers\<close>

text \<open>A slice \<open>xs[i:j]\<close> with \<open>0 \<le> i \<le> j\<close>.\<close>

definition py_slice :: "nat \<Rightarrow> nat \<Rightarrow> 'a list \<Rightarrow> 'a list" where
  "py_slice i j xs = take (j - i) (drop i xs)"

text \<open>
  The three synthesizers start with the same comprehension,
  \<open>[s.strip() for s in summary.replace("\n"," ").split('.') if s.strip()]\<close>.
\<close>

definition split_sentences :: "pystr \<Rightarrow> pystr list" where
  "split_sentences summary = stripped_nonempty (py_split 46 (py_replace 10 32 summary))"

text \<open>The fixed sentences of the synthesizers, as code points of the source's literals.\<close>

definition LONG_INTRO_DEFAULT :: pystr where
  "LONG_INTRO_DEFAULT =
     ascii '' l'' @ [224] @ ascii '' m'' @ [7897] @ ascii ''t ch'' @ [7911] @ ascii '' ''
     @ [273, 7873] @ ascii '' l'' @ [7883] @ ascii ''ch s'' @ [7917] @ ascii '' th'' @ [250]
     @ ascii '' v'' @ [7883] @ ascii ''.''"

definition LONG_CTA_VI :: pystr where
  "LONG_CTA_VI =
     ascii ''N'' @ [7871] @ ascii ''u b'' @ [7841] @ ascii ''n mu'' @ [7889] @ ascii ''n t''
     @ [236] @ ascii ''m hi'' @ [7875] @ ascii ''u s'' @ [226] @ ascii ''u h'' @ [417]
     @ ascii ''n, h'' @ [227] @ ascii ''y theo d'' @ [245] @ ascii ''i k'' @ [234]
     @ ascii ''nh '' @ [273, 7875] @ ascii '' xem c'' @ [225] @ ascii ''c video ti'' @ [7871]
     @ ascii ''p theo.''"

definition LONG_CTA_EN :: pystr where
  "LONG_CTA_EN = ascii ''If you want to learn more, subscribe for future videos.''"

definition SOURCE_VI :: pystr where
  "SOURCE_VI = ascii '' Ngu'' @ [7891] @ ascii ''n: Wikipedia.''"

definition SOURCE_EN :: pystr where
  "SOURCE_EN = ascii '' Sources: Wikipedia.''"

definition SHORT_P1_DEFAULT :: pystr where
  "SHORT_P1_DEFAULT =
     ascii '' c'' @ [243] @ ascii '' nhi'' @ [7873] @ ascii ''u '' @ [273] @ ascii ''i'' @ [7873]
     @ ascii ''u th'' @ [250] @ ascii '' v'' @ [7883] @ ascii ''.''"

definition SHORT_HOOK_VI :: pystr where
  "SHORT_HOOK_VI =
     ascii ''B'' @ [7841] @ ascii ''n c'' @ [243] @ ascii '' bi'' @ [7871] @ ascii ''t v'' @ [7873]
     @ ascii '' ''"

definition SHORT_CTA_VI :: pystr where
  "SHORT_CTA_VI =
     ascii ''N'' @ [7871] @ ascii ''u b'' @ [7841] @ ascii ''n th'' @ [237] @ ascii ''ch, h''
     @ [227] @ ascii ''y like v'' @ [224] @ ascii '' theo d'' @ [245] @ ascii ''i.''"

definition local_fallback_formatter_long :: "pystr \<Rightarrow> pystr \<Rightarrow> pystr \<Rightarrow> pystr" where
  "local_fallback_formatter_long topic summary lang =
     (let sents = split_sentences summary;
          intro = (if sents \<noteq> [] then sents ! 0 else topic @ LONG_INTRO_DEFAULT);
          middle = py_join (ascii '' '') (py_slice 1 6 sents);
          closing = (if length sents > 6 then sents ! 6 else [])
      in if startswith lang (ascii ''vi'')
         then intro @ ascii ''. '' @ middle @ ascii ''. '' @ closing @ ascii ''. '' @ LONG_CTA_VI
         else intro @ ascii ''. '' @ middle @ ascii ''. '' @ closing @ ascii ''. '' @ LONG_CTA_EN)"

definition local_fallback_formatter_fromsummary :: "pystr \<Rightarrow> pystr \<Rightarrow> pystr" where
  "local_fallback_formatter_fromsummary summary lang =
     (let sents = split_sentences summary;
          pts = py_slice 0 6 sents
      in if startswith lang (ascii ''vi'')
         then py_join (ascii '' '') pts @ SOURCE_VI
         else py_join (ascii '' '') pts @ SOURCE_EN)"

definition local_fallback_formatter_short :: "pystr \<Rightarrow> pystr \<Rightarrow> pystr \<Rightarrow> pystr" where
  "local_fallback_formatter_short topic summary lang =
     (let sents = split_sentences summary;
          p1 = (if sents \<noteq> [] then sents ! 0 else topic @ SHORT_P1_DEFAULT);
          p2 = (if length sents > 1 then sents ! 1 else []);
          p3 = (if length sents > 2 then sents ! 2 else [])
      in if startswith lang (ascii ''vi'')
         then (let hook = SHORT_HOOK_VI @ topic @ ascii ''?'';
                   body = [221] @ ascii '' 1: '' @ p1 @ ascii ''. '' @ [221] @ ascii '' 2: '' @ p2
                          @ ascii ''. '' @ [221] @ ascii '' 3: '' @ p3 @ ascii ''.'';
                   cta = SHORT_CTA_VI
               in hook @ [10, 10] @ body @ [10, 10] @ cta)
         else (let hook = ascii ''Did you know about '' @ topic @ ascii ''?'';
                   body = ascii ''Point 1: '' @ p1 @ ascii ''. Point 2: '' @ p2
                          @ ascii ''. Point 3: '' @ p3 @ ascii ''.'';
                   cta = ascii ''Like and subscribe for more.''
               in hook @ [10, 10] @ body @ [10, 10] @ cta))"

subsection \<open>The synthesizers as the specification words them\<close>

text \<open>
  The specification describes the long synthesizer as intro, middle and closing, the
  middle being sentences 1 to 5 joined by a separator, and the from-summary synthesizer
  as sentences 0 to 5 joined by a separator, followed by the attribution suffix. The
  separator is a parameter here: the specification names period-space.
\<close>

definition spec_long_cta :: "pystr \<Rightarrow> pystr" where
  "spec_long_cta lang = (if startswith lang (ascii ''vi'') then LONG_CTA_VI else LONG_CTA_EN)"

definition spec_long :: "pystr \<Rightarrow> pystr \<Rightarrow> pystr \<Rightarrow> pystr \<Rightarrow> pystr" where
  "spec_long sep topic summary lang =
     (case split_sentences summary of
        [] \<Rightarrow> (topic @ LONG_INTRO_DEFAULT) @ ascii ''. '' @ ascii ''. '' @ ascii ''. ''
                @ spec_long_cta lang
      | first # rest \<Rightarrow>
          first @ ascii ''. '' @ py_join sep (take 5 rest) @ ascii ''. ''
          @ (case drop 5 rest of [] \<Rightarrow> [] | closing # _ \<Rightarrow> closing) @ ascii ''. ''
          @ spec_long_cta lang)"

definition spec_attribution :: "pystr \<Rightarrow> pystr" where
  "spec_attribution lang = (if startswith lang (ascii ''vi'') then SOURCE_VI else SOURCE_EN)"

definition spec_fromsummary :: "pystr \<Rightarrow> pystr \<Rightarrow> pystr \<Rightarrow> pystr" where
  "spec_fromsummary sep summary lang =
     py_join sep (take 6 (split_sentences summary)) @ spec_attribution lang"

section \<open>The prompt catalogue\<close>

text \<open>
  Each template of the source contains exactly one replacement field (\<open>{TOPIC}\<close> or
  \<open>{SUMMARY}\<close>) and no other brace, so a template is kept as the text before and the
  text after that field, and \<open>template.format(FIELD=value)\<close> puts the value between
  them. The three catalogues are dictionaries with the keys \<open>vi\<close> and \<open>en\<close>.
\<close>

type_synonym template = "pystr \<times> pystr"

fun py_format :: "template \<Rightarrow> pystr \<Rightarrow> pystr" where
  "py_format (before, after) v = before @ v @ after"

definition PROMPT_LONG_VI_BEFORE :: pystr where
  "PROMPT_LONG_VI_BEFORE =
     ascii ''B'' @ [7841] @ ascii ''n l'' @ [224] @ ascii '' m'' @ [7897] @ ascii ''t nh''
     @ [224] @ ascii '' bi'' @ [234] @ ascii ''n so'' @ [7841] @ ascii ''n n'' @ [7897]
     @ ascii ''i dung l'' @ [7883] @ ascii ''ch s'' @ [7917] @ ascii ''. H'' @ [227]
     @ ascii ''y vi'' @ [7871] @ ascii ''t m'' @ [7897] @ ascii ''t k'' @ [7883]
     @ ascii ''ch b'' @ [7843] @ ascii ''n t'' @ [432, 7901] @ ascii ''ng thu'' @ [7853]
     @ ascii ''t d'' @ [224] @ ascii ''i 300'' @ [8211] @ ascii ''500 t'' @ [7915]
     @ ascii '' v'' @ [7873] @ ascii '' ch'' @ [7911] @ ascii '' '' @ [273, 7873] @ ascii '': ''
     @ [34]"

definition PROMPT_LONG_VI_AFTER :: pystr where
  "PROMPT_LONG_VI_AFTER =
     [34] @ ascii ''.'' @ [10] @ ascii ''Y'' @ [234] @ ascii ''u c'' @ [7847] @ ascii ''u:''
     @ [10] @ ascii ''- M'' @ [7903] @ ascii '' '' @ [273, 7847] @ ascii ''u g'' @ [226]
     @ ascii ''y t'' @ [242] @ ascii '' m'' @ [242] @ ascii '', c'' @ [243] @ ascii '' c''
     @ [226] @ ascii ''u hook h'' @ [7845] @ ascii ''p d'' @ [7851] @ ascii ''n.'' @ [10]
     @ ascii ''- Tr'' @ [236] @ ascii ''nh b'' @ [224] @ ascii ''y m'' @ [7841] @ ascii ''ch l''
     @ [7841] @ ascii ''c theo th'' @ [7901] @ ascii ''i gian, c'' @ [243] @ ascii '' cao tr''
     @ [224] @ ascii ''o.'' @ [10] @ ascii ''- D'' @ [249] @ ascii ''ng ng'' @ [244]
     @ ascii ''n t'' @ [7915] @ ascii '' d'' @ [7877] @ ascii '' hi'' @ [7875] @ ascii ''u, ph''
     @ [249] @ ascii '' h'' @ [7907] @ ascii ''p video YouTube ('' @ [273, 7897] @ ascii '' d''
     @ [224] @ ascii ''i '' @ [126] @ ascii ''5-8 ph'' @ [250] @ ascii ''t khi '' @ [273, 7885]
     @ ascii ''c ch'' @ [7853] @ ascii ''m).'' @ [10] @ ascii ''- K'' @ [7871] @ ascii ''t th''
     @ [250] @ ascii ''c c'' @ [243] @ ascii '' t'' @ [237] @ ascii ''nh g'' @ [7907]
     @ ascii ''i m'' @ [7903] @ ascii '' '' @ [273, 7875] @ ascii '' ng'' @ [432, 7901]
     @ ascii ''i xem mu'' @ [7889] @ ascii ''n t'' @ [236] @ ascii ''m hi'' @ [7875]
     @ ascii ''u th'' @ [234] @ ascii ''m.'' @ [10] @ ascii ''Ng'' @ [244] @ ascii ''n ng''
     @ [7919] @ ascii '': Ti'' @ [7871] @ ascii ''ng Vi'' @ [7879] @ ascii ''t.'' @ [10]
     @ ascii ''Tr'' @ [7843] @ ascii '' v'' @ [7873] @ ascii '' plain text.''"

definition PROMPT_LONG_EN_BEFORE :: pystr where
  "PROMPT_LONG_EN_BEFORE =
     ascii ''You are a historical content writer. Write a 300'' @ [8211]
     @ ascii ''500 word narrative script about: '' @ [34]"

definition PROMPT_LONG_EN_AFTER :: pystr where
  "PROMPT_LONG_EN_AFTER =
     [34] @ ascii ''.'' @ [10] @ ascii ''Requirements:'' @ [10]
     @ ascii ''- Start with a compelling hook.'' @ [10]
     @ ascii ''- Present chronologically with a climax.'' @ [10]
     @ ascii ''- Use clear language suitable for a YouTube narration.'' @ [10]
     @ ascii ''- End with a thought-provoking closing inviting further exploration.'' @ [10]
     @ ascii ''Return plain text.''"

definition PROMPT_LONG :: "pystr \<rightharpoonup> template" where
  "PROMPT_LONG =
     [ascii ''vi'' \<mapsto> (PROMPT_LONG_VI_BEFORE, PROMPT_LONG_VI_AFTER),
      ascii ''en'' \<mapsto> (PROMPT_LONG_EN_BEFORE, PROMPT_LONG_EN_AFTER)]"

definition PROMPT_FROM_SUMMARY_VI_BEFORE :: pystr where
  "PROMPT_FROM_SUMMARY_VI_BEFORE =
     ascii ''B'' @ [7841] @ ascii ''n nh'' @ [7853] @ ascii ''n '' @ [273, 432, 7907]
     @ ascii ''c m'' @ [7897] @ ascii ''t '' @ [273] @ ascii ''o'' @ [7841] @ ascii ''n t''
     @ [243] @ ascii ''m t'' @ [7855] @ ascii ''t Wikipedia sau:'' @ [10, 10, 34]"

definition PROMPT_FROM_SUMMARY_VI_AFTER :: pystr where
  "PROMPT_FROM_SUMMARY_VI_AFTER =
     [34, 10, 10] @ ascii ''H'' @ [227] @ ascii ''y chuy'' @ [7875] @ ascii ''n n'' @ [7897]
     @ ascii ''i dung n'' @ [224] @ ascii ''y th'' @ [224] @ ascii ''nh m'' @ [7897]
     @ ascii ''t k'' @ [7883] @ ascii ''ch b'' @ [7843] @ ascii ''n k'' @ [7875]
     @ ascii '' chuy'' @ [7879] @ ascii ''n l'' @ [7883] @ ascii ''ch s'' @ [7917]
     @ ascii '' (300'' @ [8211] @ ascii ''400 t'' @ [7915] @ ascii '') theo phong c'' @ [225]
     @ ascii ''ch g'' @ [7847] @ ascii ''n g'' @ [361] @ ascii ''i, nh'' @ [432] @ ascii '' m''
     @ [7897] @ ascii ''t ng'' @ [432, 7901] @ ascii ''i d'' @ [7851] @ ascii ''n chuy''
     @ [7879] @ ascii ''n tr'' @ [234] @ ascii ''n video.'' @ [10] @ ascii ''- Gi'' @ [7919]
     @ ascii '' t'' @ [237] @ ascii ''nh ch'' @ [237] @ ascii ''nh x'' @ [225] @ ascii ''c nh''
     @ [432] @ ascii ''ng gi'' @ [7843] @ ascii ''m kh'' @ [244] @ ascii '' khan.'' @ [10]
     @ ascii ''- Th'' @ [234] @ ascii ''m chi ti'' @ [7871] @ ascii ''t th'' @ [250]
     @ ascii '' v'' @ [7883] @ ascii '' ho'' @ [7863] @ ascii ''c ng'' @ [7919] @ ascii '' c''
     @ [7843] @ ascii ''nh l'' @ [7883] @ ascii ''ch s'' @ [7917] @ ascii '' n'' @ [7871]
     @ ascii ''u th'' @ [237] @ ascii ''ch h'' @ [7907] @ ascii ''p.'' @ [10] @ ascii ''- Gi''
     @ [7919] @ ascii '' gi'' @ [7885] @ ascii ''ng v'' @ [259] @ ascii ''n h'' @ [7845]
     @ ascii ''p d'' @ [7851] @ ascii ''n, ph'' @ [249] @ ascii '' h'' @ [7907] @ ascii ''p kh''
     @ [225] @ ascii ''n gi'' @ [7843] @ ascii '' ph'' @ [7893] @ ascii '' th'' @ [244]
     @ ascii ''ng.'' @ [10] @ ascii ''Ng'' @ [244] @ ascii ''n ng'' @ [7919] @ ascii '': Ti''
     @ [7871] @ ascii ''ng Vi'' @ [7879] @ ascii ''t.'' @ [10] @ ascii ''Tr'' @ [7843]
     @ ascii '' v'' @ [7873] @ ascii '' plain text.''"

definition PROMPT_FROM_SUMMARY_EN_BEFORE :: pystr where
  "PROMPT_FROM_SUMMARY_EN_BEFORE =
     ascii ''You receive the following Wikipedia summary:'' @ [10, 10, 34]"

definition PROMPT_FROM_SUMMARY_EN_AFTER :: pystr where
  "PROMPT_FROM_SUMMARY_EN_AFTER =
     [34, 10, 10] @ ascii ''Convert this into a 300'' @ [8211]
     @ ascii ''400 word historical storytelling script in a friendly, narrator style suitable for a video.''
     @ [10] @ ascii ''- Keep accuracy but reduce dryness.'' @ [10]
     @ ascii ''- Add interesting details or context where relevant.'' @ [10]
     @ ascii ''- Maintain an engaging tone for a general audience.'' @ [10]
     @ ascii ''Language: English.'' @ [10] @ ascii ''Return plain text.''"

definition PROMPT_FROM_SUMMARY :: "pystr \<rightharpoonup> template" where
  "PROMPT_FROM_SUMMARY =
     [ascii ''vi'' \<mapsto> (PROMPT_FROM_SUMMARY_VI_BEFORE, PROMPT_FROM_SUMMARY_VI_AFTER),
      ascii ''en'' \<mapsto> (PROMPT_FROM_SUMMARY_EN_BEFORE, PROMPT_FROM_SUMMARY_EN_AFTER)]"

definition PROMPT_SHORT_VI_BEFORE :: pystr where
  "PROMPT_SHORT_VI_BEFORE =
     ascii ''B'' @ [7841] @ ascii ''n l'' @ [224] @ ascii '' storyteller. Vi'' @ [7871]
     @ ascii ''t k'' @ [7883] @ ascii ''ch b'' @ [7843] @ ascii ''n ng'' @ [7855]
     @ ascii ''n (100'' @ [8211] @ ascii ''150 t'' @ [7915] @ ascii '') v'' @ [7873]
     @ ascii '' '' @ [34]"

definition PROMPT_SHORT_VI_AFTER :: pystr where
  "PROMPT_SHORT_VI_AFTER =
     [34] @ ascii '' '' @ [273, 7875] @ ascii '' d'' @ [249]
     @ ascii ''ng cho video Shorts/TikTok (kho'' @ [7843] @ ascii ''ng 1 ph'' @ [250]
     @ ascii ''t).'' @ [10] @ ascii ''Y'' @ [234] @ ascii ''u c'' @ [7847] @ ascii ''u:'' @ [10]
     @ ascii ''- B'' @ [7855] @ ascii ''t '' @ [273, 7847] @ ascii ''u b'' @ [7857]
     @ ascii ''ng 1 c'' @ [226] @ ascii ''u h'' @ [7887] @ ascii ''i ho'' @ [7863]
     @ ascii ''c 1 s'' @ [7921] @ ascii '' th'' @ [7853] @ ascii ''t g'' @ [226] @ ascii ''y t''
     @ [242] @ ascii '' m'' @ [242] @ ascii ''.'' @ [10] @ ascii ''- Tr'' @ [236]
     @ ascii ''nh b'' @ [224] @ ascii ''y nhanh, r'' @ [245] @ ascii '' r'' @ [224]
     @ ascii ''ng: 3 '' @ [253] @ ascii '' ng'' @ [7855] @ ascii ''n (m'' @ [7895]
     @ ascii ''i '' @ [253] @ ascii '' 1 c'' @ [226] @ ascii ''u).'' @ [10] @ ascii ''- K''
     @ [7871] @ ascii ''t th'' @ [250] @ ascii ''c 1 c'' @ [226] @ ascii ''u CTA (k'' @ [234]
     @ ascii ''u g'' @ [7885] @ ascii ''i like/subscribe ho'' @ [7863] @ ascii ''c '' @ [34]
     @ ascii ''xem ti'' @ [7871] @ ascii ''p'' @ [34] @ ascii '').'' @ [10] @ ascii ''Ng''
     @ [244] @ ascii ''n ng'' @ [7919] @ ascii '': Ti'' @ [7871] @ ascii ''ng Vi'' @ [7879]
     @ ascii ''t.'' @ [10] @ ascii ''Tr'' @ [7843] @ ascii '' v'' @ [7873]
     @ ascii '' plain text.''"

definition PROMPT_SHORT_EN_BEFORE :: pystr where
  "PROMPT_SHORT_EN_BEFORE =
     ascii ''You are a storyteller. Write a short 100'' @ [8211]
     @ ascii ''150 word script about '' @ [34]"

definition PROMPT_SHORT_EN_AFTER :: pystr where
  "PROMPT_SHORT_EN_AFTER =
     [34] @ ascii '' for a Shorts/TikTok ('' @ [126] @ ascii ''1 minute).'' @ [10]
     @ ascii ''Requirements:'' @ [10] @ ascii ''- Start with a question or striking fact.''
     @ [10] @ ascii ''- Present 3 concise points (one sentence each).'' @ [10]
     @ ascii ''- End with a CTA (subscribe/like or '' @ [34] @ ascii ''learn more'' @ [34]
     @ ascii '').'' @ [10] @ ascii ''Language: English.'' @ [10] @ ascii ''Return plain text.''"

definition PROMPT_SHORT :: "pystr \<rightharpoonup> template" where
  "PROMPT_SHORT =
     [ascii ''vi'' \<mapsto> (PROMPT_SHORT_VI_BEFORE, PROMPT_SHORT_VI_AFTER),
      ascii ''en'' \<mapsto> (PROMPT_SHORT_EN_BEFORE, PROMPT_SHORT_EN_AFTER)]"

section \<open>The external collaborators\<close>

text \<open>
  The script set is the dictionary \<open>{'long': None, 'from_summary': None, 'short': None}\<close>
  whose entries are then assigned; \<open>None\<close> is Python's \<open>None\<close>.
\<close>

record scripts =
  long :: "pystr option"
  from_summary :: "pystr option"
  short :: "pystr option"

text \<open>
  The dictionary \<open>meta\<close> that \<open>process_topic\<close> hands to \<open>json.dump\<close>, with the keys
  topic, lang, summary, scripts and segments (prefixed here, since the plain words name
  the variables of the program).
\<close>

record topic_record =
  meta_topic :: pystr
  meta_lang :: pystr
  meta_summary :: pystr
  meta_scripts :: scripts
  meta_segments :: "segment list"

text \<open>
  What the program reads from and does to the outside world: the two import flags, the
  wikipedia library (with the language set by \<open>wikipedia.set_lang\<close> as an argument),
  the environment variable \<open>OPENAI_API_KEY\<close> (\<open>None\<close> when unset), the chat completion
  service, and the file system. \<open>openai_chat_content key model prompt\<close> is the value of
  \<open>resp['choices'][0]['message']['content']\<close> for the request the program sends (one
  user message, \<open>max_tokens=800\<close>, \<open>temperature=0.7\<close>), or the exception raised by the
  request, by reading the response or by trimming a content that is not a string. A file
  system operation returns the exception it raises, if any.
\<close>

record env =
  WIKI_AVAILABLE :: bool
  wikipedia_summary :: "pystr \<Rightarrow> pystr \<Rightarrow> nat \<Rightarrow> exn + pystr"
  wikipedia_page_content :: "pystr \<Rightarrow> pystr \<Rightarrow> exn + pystr"
  OPENAI_AVAILABLE :: bool
  OPENAI_API_KEY :: "pystr option"
  openai_chat_content :: "pystr \<Rightarrow> pystr \<Rightarrow> pystr \<Rightarrow> exn + pystr"
  os_makedirs :: "pystr \<Rightarrow> exn option"
  os_path_join :: "pystr \<Rightarrow> pystr \<Rightarrow> pystr"
  open_write :: "pystr \<Rightarrow> exn option"
  file_write :: "pystr \<Rightarrow> pystr \<Rightarrow> exn option"
  json_dump :: "pystr \<Rightarrow> topic_record \<Rightarrow> exn option"

text \<open>The truth value of \<open>os.getenv(...)\<close>: false for \<open>None\<close> and for the empty string.\<close>

fun truthy :: "pystr option \<Rightarrow> bool" where
  "truthy None = False"
| "truthy (Some s) = (s \<noteq> [])"

definition fetch_wikipedia_summary ::
  "env \<Rightarrow> pystr \<Rightarrow> pystr \<Rightarrow> nat \<Rightarrow> exn + pystr \<times> pystr" where
  "fetch_wikipedia_summary env topic lang sentences =
     (if \<not> WIKI_AVAILABLE env
      then Inl (RuntimeError (ascii ''Package wikipedia kh'' @ [244] @ ascii ''ng c'' @ [243]
                  @ ascii ''. C'' @ [224] @ ascii ''i: pip install wikipedia''))
      else case wikipedia_summary env lang topic sentences of
             Inl e \<Rightarrow> Inl e
           | Inr summary \<Rightarrow>
               (case wikipedia_page_content env lang topic of
                  Inl e \<Rightarrow> Inl e
                | Inr content \<Rightarrow> Inr (summary, py_slice 0 5000 content)))"

definition call_openai :: "env \<Rightarrow> pystr \<Rightarrow> pystr \<Rightarrow> exn + pystr" where
  "call_openai env prompt model =
     (if \<not> OPENAI_AVAILABLE env
      then Inl (RuntimeError (ascii ''openai package not installed. pip install openai''))
      else case OPENAI_API_KEY env of
             None \<Rightarrow> Inl (RuntimeError (ascii ''OPENAI_API_KEY not set.''))
           | Some key \<Rightarrow>
               if key = [] then Inl (RuntimeError (ascii ''OPENAI_API_KEY not set.''))
               else (case openai_chat_content env key model prompt of
                       Inl e \<Rightarrow> Inl e
                     | Inr content \<Rightarrow> Inr (strip content)))"

text \<open>The default value of the parameter \<open>model\<close> of \<open>call_openai\<close>.\<close>

definition DEFAULT_MODEL :: pystr where
  "DEFAULT_MODEL = ascii ''gpt-4o-mini''"

section \<open>The generation strategy: \<open>generate_three_scripts\<close>\<close>

definition lang_key :: "pystr \<Rightarrow> pystr" where
  "lang_key lang = (if startswith lang (ascii ''vi'') then ascii ''vi'' else ascii ''en'')"

text \<open>
  \<open>PROMPT[lang_key].format(FIELD=value)\<close>: the subscript raises KeyError for a key that
  the dictionary does not have (its message is the key in quotes).
\<close>

definition render_prompt :: "(pystr \<rightharpoonup> template) \<Rightarrow> pystr \<Rightarrow> pystr \<Rightarrow> exn + pystr" where
  "render_prompt catalogue key v =
     (case catalogue key of
        None \<Rightarrow> Inl (KeyError ([39] @ key @ [39]))
      | Some t \<Rightarrow> Inr (py_format t v))"

text \<open>
  Each of the three \<open>try\<close> blocks either raises or gives the text to store; its
  \<open>except Exception\<close> handler stores the text of the fallback synthesizer.
\<close>

definition generate_three_scripts :: "env \<Rightarrow> pystr \<Rightarrow> pystr \<Rightarrow> pystr \<Rightarrow> scripts" where
  "generate_three_scripts env topic summary lang =
     (let key = lang_key lang;
          scripts0 = \<lparr>long = None, from_summary = None, short = None\<rparr>;
          scripts1 = scripts0\<lparr>long := Some
            (case (if OPENAI_AVAILABLE env \<and> truthy (OPENAI_API_KEY env)
                   then (case render_prompt PROMPT_LONG key topic of
                           Inl e \<Rightarrow> Inl e
                         | Inr prompt \<Rightarrow> call_openai env prompt DEFAULT_MODEL)
                   else Inr (local_fallback_formatter_long topic summary lang)) of
               Inl e \<Rightarrow> local_fallback_formatter_long topic summary lang
             | Inr s \<Rightarrow> s)\<rparr>;
          scripts2 = scripts1\<lparr>from_summary := Some
            (case (if OPENAI_AVAILABLE env \<and> truthy (OPENAI_API_KEY env)
                   then (case render_prompt PROMPT_FROM_SUMMARY key summary of
                           Inl e \<Rightarrow> Inl e
                         | Inr prompt \<Rightarrow> call_openai env prompt DEFAULT_MODEL)
                   else Inr (local_fallback_formatter_fromsummary summary lang)) of
               Inl e \<Rightarrow> local_fallback_formatter_fromsummary summary lang
             | Inr s \<Rightarrow> s)\<rparr>;
          scripts3 = scripts2\<lparr>short := Some
            (case (if OPENAI_AVAILABLE env \<and> truthy (OPENAI_API_KEY env)
                   then (case render_prompt PROMPT_SHORT key topic of
                           Inl e \<Rightarrow> Inl e
                         | Inr prompt \<Rightarrow> call_openai env prompt DEFAULT_MODEL)
                   else Inr (local_fallback_formatter_short topic summary lang)) of
               Inl e \<Rightarrow> local_fallback_formatter_short topic summary lang
             | Inr s \<Rightarrow> s)\<rparr>
      in scripts3)"

section \<open>The orchestrator: \<open>process_topic\<close> and \<open>main\<close>\<close>

text \<open>
  \<open>s.upper()\<close> on the letters a to z; the program applies it to the role of a segment
  only, which is one of the ASCII words hook, point1, point2, point3 and cta.
\<close>

definition upper :: "pystr \<Rightarrow> pystr" where
  "upper s = map (\<lambda>c. if 97 \<le> c \<and> c \<le> 122 then c - 32 else c) s"

text \<open>The line written for one segment of the text document.\<close>

definition segment_line :: "segment \<Rightarrow> pystr" where
  "segment_line s =
     upper (role s) @ ascii '' ['' @ str_int (start s) @ ascii ''s - '' @ str_int (end' s)
     @ ascii ''s]: '' @ text' s @ [10]"

text \<open>
  Everything the program writes to the text document, in order. Adding \<open>"\n\n"\<close> to an
  entry of the script set that is \<open>None\<close> raises TypeError.
\<close>

definition NONE_PLUS_STR :: exn where
  "NONE_PLUS_STR =
     TypeError (ascii ''unsupported operand type(s) for +: '' @ [39] @ ascii ''NoneType'' @ [39]
                @ ascii '' and '' @ [39] @ ascii ''str'' @ [39])"

definition text_document :: "pystr \<Rightarrow> pystr \<Rightarrow> scripts \<Rightarrow> segment list \<Rightarrow> exn + pystr" where
  "text_document topic summary scripts segments =
     (case long scripts of
        None \<Rightarrow> Inl NONE_PLUS_STR
      | Some long_text \<Rightarrow>
          (case from_summary scripts of
             None \<Rightarrow> Inl NONE_PLUS_STR
           | Some from_summary_text \<Rightarrow>
               (case short scripts of
                  None \<Rightarrow> Inl NONE_PLUS_STR
                | Some short_text \<Rightarrow>
                    Inr (ascii ''# Topic: '' @ topic @ [10, 10]
                         @ ascii ''---'' @ [10, 10]
                         @ ascii ''# Summary (raw)'' @ [10, 10]
                         @ summary @ [10, 10]
                         @ ascii ''---'' @ [10, 10]
                         @ ascii ''# Scripts'' @ [10, 10]
                         @ ascii ''## Long narrative'' @ [10, 10]
                         @ long_text @ [10, 10]
                         @ ascii ''## From summary (story)'' @ [10, 10]
                         @ from_summary_text @ [10, 10]
                         @ ascii ''## Short script (for Shorts)'' @ [10, 10]
                         @ short_text @ [10, 10]
                         @ ascii ''---'' @ [10, 10]
                         @ ascii ''# Segments (timecodes)'' @ [10, 10]
                         @ concat (map segment_line segments)))))"

text \<open>The placeholder summary: the fixed prefix, the message of the exception, a bracket.\<close>

definition SUMMARY_PLACEHOLDER_PREFIX :: pystr where
  "SUMMARY_PLACEHOLDER_PREFIX =
     ascii ''[Kh'' @ [244] @ ascii ''ng l'' @ [7845] @ ascii ''y '' @ [273, 432, 7907]
     @ ascii ''c Wikipedia. L'' @ [253] @ ascii '' do: ''"

text \<open>
  What one call of \<open>process_topic\<close> produces: the two paths it returns, the text it
  wrote to the text document and the dictionary it dumped as JSON.
\<close>

record topic_output =
  out_txt_file :: pystr
  out_json_file :: pystr
  out_document :: pystr
  out_meta :: topic_record

definition process_topic ::
  "env \<Rightarrow> pystr \<Rightarrow> pystr \<Rightarrow> pystr \<Rightarrow> bool \<Rightarrow> exn + topic_output" where
  "process_topic env topic lang out_folder use_ai =
     (case os_makedirs env out_folder of
        Some e \<Rightarrow> Inl e
      | None \<Rightarrow>
     (let safe_name = py_replace 47 95 (py_replace 32 95 topic);
          txt_file = os_path_join env out_folder (ascii ''script_'' @ safe_name @ ascii ''.txt'');
          json_file = os_path_join env out_folder (ascii ''script_'' @ safe_name @ ascii ''.json'');
          (summary, full) =
            (case fetch_wikipedia_summary env topic lang 6 of
               Inl e \<Rightarrow> (SUMMARY_PLACEHOLDER_PREFIX @ str_exn e @ ascii '']'', [])
             | Inr r \<Rightarrow> r);
          scripts = generate_three_scripts env topic summary lang
      in case short scripts of
           None \<Rightarrow>
             Inl (AttributeError ([39] @ ascii ''NoneType'' @ [39]
                                  @ ascii '' object has no attribute '' @ [39] @ ascii ''split''
                                  @ [39]))
         | Some short_text \<Rightarrow>
     (case split_script_to_segments short_text lang of
        Inl e \<Rightarrow> Inl e
      | Inr segments \<Rightarrow>
     (case open_write env txt_file of
        Some e \<Rightarrow> Inl e
      | None \<Rightarrow>
     (case text_document topic summary scripts segments of
        Inl e \<Rightarrow> Inl e
      | Inr doc \<Rightarrow>
     (case file_write env txt_file doc of
        Some e \<Rightarrow> Inl e
      | None \<Rightarrow>
     (let meta = \<lparr>meta_topic = topic, meta_lang = lang, meta_summary = summary,
                   meta_scripts = scripts, meta_segments = segments\<rparr>
      in case open_write env json_file of
           Some e \<Rightarrow> Inl e
         | None \<Rightarrow>
     (case json_dump env json_file meta of
        Some e \<Rightarrow> Inl e
      | None \<Rightarrow>
          Inr \<lparr>out_txt_file = txt_file, out_json_file = json_file, out_document = doc,
               out_meta = meta\<rparr>))))))))"

text \<open>
  The command line as argparse sees it: which options were given, and with what value.
  \<open>--topics\<close> is required: without it \<open>parse_args\<close> prints the usage message and exits
  with status 2. The other options have defaults.
\<close>

record cmdline =
  topics_given :: "pystr option"
  lang_given :: "pystr option"
  out_folder_given :: "pystr option"
  no_ai_given :: bool

record args =
  args_topics :: pystr
  args_lang :: pystr
  args_out_folder :: pystr
  args_no_ai :: bool

definition parse_args :: "cmdline \<Rightarrow> int + args" where
  "parse_args c =
     (case topics_given c of
        None \<Rightarrow> Inl 2
      | Some t \<Rightarrow>
          Inr \<lparr>args_topics = t,
               args_lang = (case lang_given c of None \<Rightarrow> ascii ''vi'' | Some l \<Rightarrow> l),
               args_out_folder =
                 (case out_folder_given c of None \<Rightarrow> ascii ''./outputs'' | Some d \<Rightarrow> d),
               args_no_ai = no_ai_given c\<rparr>)"

text \<open>
  How a run of the program ends, the lines it printed and what it produced for the topics
  it processed.
\<close>

datatype ending = Done | SystemExit int | Uncaught exn

record run =
  stdout :: "pystr list"
  outputs :: "topic_output list"
  ending :: ending

text \<open>The loop \<open>for t in topics\<close> of \<open>main\<close>, followed by \<open>print("Done.")\<close>.\<close>

fun main_loop :: "env \<Rightarrow> args \<Rightarrow> pystr list \<Rightarrow> run \<Rightarrow> run" where
  "main_loop env a [] r = r\<lparr>stdout := stdout r @ [ascii ''Done.''], ending := Done\<rparr>"
| "main_loop env a (t # ts) r =
     (let r1 = r\<lparr>stdout := stdout r @ [ascii ''Processing: '' @ t]\<rparr>
      in case process_topic env t (args_lang a) (args_out_folder a) (\<not> args_no_ai a) of
           Inl e \<Rightarrow> r1\<lparr>ending := Uncaught e\<rparr>
         | Inr out \<Rightarrow>
             main_loop env a ts
               (r1\<lparr>stdout := stdout r1
                       @ [ascii ''Saved: '' @ out_txt_file out @ ascii '' '' @ out_json_file out],
                    outputs := outputs r1 @ [out]\<rparr>))"

definition main :: "env \<Rightarrow> cmdline \<Rightarrow> run" where
  "main env c =
     (case parse_args c of
        Inl status \<Rightarrow> \<lparr>stdout = [], outputs = [], ending = SystemExit status\<rparr>
      | Inr a \<Rightarrow>
          (let topics = stripped_nonempty (py_split 44 (args_topics a))
           in main_loop env a topics \<lparr>stdout = [], outputs = [], ending = Done\<rparr>))"

section \<open>Concrete environments\<close>

text \<open>
  Three environments to run the program in. In all of them the wikipedia package is
  missing and the file system accepts everything (\<open>os.path.join\<close> is the POSIX one for a
  relative second path and a first path that does not end with a slash). In
  \<open>env_offline\<close> the openai package is missing and no key is set; in \<open>env_down\<close> the
  package and a key are present and every request raises; in \<open>env_blank\<close> every request
  is answered with one space.
\<close>

definition env_offline :: env where
  "env_offline =
     \<lparr>WIKI_AVAILABLE = False,
      wikipedia_summary = (\<lambda>l t n. Inl (External (ascii ''unreachable''))),
      wikipedia_page_content = (\<lambda>l t. Inl (External (ascii ''unreachable''))),
      OPENAI_AVAILABLE = False,
      OPENAI_API_KEY = None,
      openai_chat_content = (\<lambda>k m p. Inl (External (ascii ''unreachable''))),
      os_makedirs = (\<lambda>d. None),
      os_path_join = (\<lambda>a b. a @ [47] @ b),
      open_write = (\<lambda>f. None),
      file_write = (\<lambda>f d. None),
      json_dump = (\<lambda>f m. None)\<rparr>"

definition env_down :: env where
  "env_down =
     env_offline\<lparr>OPENAI_AVAILABLE := True, OPENAI_API_KEY := Some (ascii ''key''),
                 openai_chat_content := (\<lambda>k m p. Inl (External (ascii ''service down'')))\<rparr>"

definition env_blank :: env where
  "env_blank =
     env_offline\<lparr>OPENAI_AVAILABLE := True, OPENAI_API_KEY := Some (ascii ''key''),
                 openai_chat_content := (\<lambda>k m p. Inr (ascii '' ''))\<rparr>"

text \<open>Three command lines: without \<open>--topics\<close>, with an empty one, with a blank one.\<close>

definition no_topics :: cmdline where
  "no_topics = \<lparr>topics_given = None, lang_given = None, out_folder_given = None,
                no_ai_given = False\<rparr>"

definition empty_topics :: cmdline where
  "empty_topics = \<lparr>topics_given = Some [], lang_given = None, out_folder_given = None,
                   no_ai_given = False\<rparr>"

definition blank_topics :: cmdline where
  "blank_topics = \<lparr>topics_given = Some (ascii '' , ''), lang_given = None,
                   out_folder_given = None, no_ai_given = False\<rparr>"

section \<open>Properties of the segmenter\<close>

lemma range_3: "[0..<3] = [0, 1, 2]"
  by code_simp

lemma length_append_points_le:
  "length points \<le> 3 \<Longrightarrow> length (append_points points sents) \<le> 3"
  by (induction sents arbitrary: points) auto

lemma length_collect_points_le:
  "length points \<le> 3 \<Longrightarrow> length (collect_points points middle) \<le> 3"
  by (induction middle arbitrary: points) (auto simp: length_append_points_le)

lemma length_pad_points:
  "length points \<le> 3 \<Longrightarrow> length (pad_points points) = 3"
proof (induction points rule: pad_points.induct)
  case (1 points)
  show ?case
  proof (cases "length points < 3")
    case True
    with 1 show ?thesis by (subst pad_points.simps) simp
  next
    case False
    with 1 show ?thesis by (subst pad_points.simps) simp
  qed
qed

lemma points_three:
  "\<exists>a b c. pad_points (collect_points [] middle) = [a, b, c]"
proof -
  have "length (pad_points (collect_points [] middle)) = 3"
    by (rule length_pad_points) (simp add: length_collect_points_le)
  then show ?thesis
    by (auto simp: length_Suc_conv numeral_3_eq_3)
qed

lemma str_int_1_2_3:
  "str_int 1 = [49]" "str_int 2 = [50]" "str_int 3 = [51]"
  by (simp_all add: str_int_def str_nat.simps)

lemma point_slots_three:
  "point_slots [a, b, c] [0..<3] =
     Inr [\<lparr>role = ascii ''point1'', text' = a, duration = 15\<rparr>,
          \<lparr>role = ascii ''point2'', text' = b, duration = 15\<rparr>,
          \<lparr>role = ascii ''point3'', text' = c, duration = 15\<rparr>]"
  by (simp add: range_3 py_index_def str_int_1_2_3 ascii_def)

lemma split_script_to_segments_shape:
  "\<exists>h a b c t. split_script_to_segments script_text lang =
     Inr [\<lparr>role = ascii ''hook'', text' = h, duration = 8, start = 0, end' = 8\<rparr>,
          \<lparr>role = ascii ''point1'', text' = a, duration = 15, start = 8, end' = 23\<rparr>,
          \<lparr>role = ascii ''point2'', text' = b, duration = 15, start = 23, end' = 38\<rparr>,
          \<lparr>role = ascii ''point3'', text' = c, duration = 15, start = 38, end' = 53\<rparr>,
          \<lparr>role = ascii ''cta'', text' = t, duration = 7, start = 53, end' = 60\<rparr>]"
proof -
  let ?parts = "stripped_nonempty (py_split 10 script_text)"
  let ?middle = "if length ?parts > 2 then butlast (drop 1 ?parts) else drop 1 ?parts"
  obtain a b c where "pad_points (collect_points [] ?middle) = [a, b, c]"
    using points_three by blast
  then show ?thesis
    unfolding split_script_to_segments_def Let_def
    by (simp add: point_slots_three)
qed

text \<open>
  C1. For every input string the segmenter returns (without raising) exactly five
  segments, with the roles hook, point1, point2, point3, cta in this order, the durations
  8, 15, 15, 15, 7, the starts 0, 8, 23, 38, 53 and the ends 8, 23, 38, 53, 60: the
  schedule does not depend on the text.
\<close>

theorem segmenter_fixed_schedule:
  "\<exists>segs. split_script_to_segments script_text lang = Inr segs
      \<and> length segs = 5
      \<and> map role segs = [ascii ''hook'', ascii ''point1'', ascii ''point2'', ascii ''point3'',
                          ascii ''cta'']
      \<and> map duration segs = [8, 15, 15, 15, 7]
      \<and> map start segs = [0, 8, 23, 38, 53]
      \<and> map end' segs = [8, 23, 38, 53, 60]"
proof -
  obtain h a b c t where "split_script_to_segments script_text lang =
     Inr [\<lparr>role = ascii ''hook'', text' = h, duration = 8, start = 0, end' = 8\<rparr>,
          \<lparr>role = ascii ''point1'', text' = a, duration = 15, start = 8, end' = 23\<rparr>,
          \<lparr>role = ascii ''point2'', text' = b, duration = 15, start = 23, end' = 38\<rparr>,
          \<lparr>role = ascii ''point3'', text' = c, duration = 15, start = 38, end' = 53\<rparr>,
          \<lparr>role = ascii ''cta'', text' = t, duration = 7, start = 53, end' = 60\<rparr>]"
    using split_script_to_segments_shape by blast
  then show ?thesis by simp
qed

section \<open>The segmenter on a script of two lines\<close>

lemma append_points_full:
  "3 \<le> length points \<Longrightarrow> append_points points sents = points"
  by (induction sents) auto

lemma list_shape_3:
  obtains "ss = []" | a where "ss = [a]" | a b where "ss = [a, b]"
    | a b c rest where "ss = a # b # c # rest"
proof (cases ss)
  case Nil
  then show ?thesis using that by simp
next
  case c1: (Cons a r1)
  show ?thesis
  proof (cases r1)
    case Nil
    with c1 show ?thesis using that by simp
  next
    case c2: (Cons b r2)
    show ?thesis
    proof (cases r2)
      case Nil
      with c1 c2 show ?thesis using that by simp
    next
      case (Cons c r3)
      with c1 c2 show ?thesis using that by simp
    qed
  qed
qed

lemma points_of_sents:
  "pad_points (append_points [] ss) = take 3 (ss @ [[], [], []])"
proof (cases ss rule: list_shape_3)
  case 1
  then show ?thesis by (simp add: pad_points.simps)
next
  case (2 a)
  then show ?thesis by (simp add: pad_points.simps)
next
  case (3 a b)
  then show ?thesis by (simp add: pad_points.simps)
next
  case (4 a b c rest)
  then show ?thesis by (simp add: pad_points.simps append_points_full)
qed

lemma points_of_single_line:
  "pad_points (collect_points [] [c]) = take 3 (stripped_nonempty (py_split 46 c) @ [[], [], []])"
  by (simp add: points_of_sents)

lemma take3_three: "\<exists>a b c. take 3 (xs @ [[], [], []]) = [a, b, c::pystr]"
proof -
  show ?thesis by (cases xs rule: list_shape_3) simp_all
qed

text \<open>
  C5 (as amended). When the script has exactly two non-empty lines, the first is the hook
  and the second is the CTA and also the only middle line: the three point segments hold
  the first three sentences of the second line, padded with empty strings, and the
  timing is the fixed one.
\<close>

theorem two_line_script:
  assumes "stripped_nonempty (py_split 10 script_text) = [h, c]"
  shows "split_script_to_segments script_text lang =
     (let pts = take 3 (stripped_nonempty (py_split 46 c) @ [[], [], []]) in
      Inr [\<lparr>role = ascii ''hook'', text' = h, duration = 8, start = 0, end' = 8\<rparr>,
           \<lparr>role = ascii ''point1'', text' = pts ! 0, duration = 15, start = 8, end' = 23\<rparr>,
           \<lparr>role = ascii ''point2'', text' = pts ! 1, duration = 15, start = 23, end' = 38\<rparr>,
           \<lparr>role = ascii ''point3'', text' = pts ! 2, duration = 15, start = 38, end' = 53\<rparr>,
           \<lparr>role = ascii ''cta'', text' = c, duration = 7, start = 53, end' = 60\<rparr>])"
proof -
  obtain p1 p2 p3 where p: "take 3 (stripped_nonempty (py_split 46 c) @ [[], [], []]) = [p1, p2, p3]"
    using take3_three by blast
  have "pad_points (collect_points [] [c]) = [p1, p2, p3]"
    using p by (simp only: points_of_single_line)
  then show ?thesis
    unfolding split_script_to_segments_def Let_def assms p
    by (simp add: point_slots_three)
qed

lemma parts_hook_ab:
  "stripped_nonempty (py_split 10 (ascii ''Hook'' @ [10] @ ascii ''A. B'')) = [ascii ''Hook'', ascii ''A. B'']"
  by (simp add: stripped_nonempty_def py_split_def strip_def isspace_def ascii_def)

lemma sents_ab:
  "stripped_nonempty (py_split 46 (ascii ''A. B'')) = [ascii ''A'', ascii ''B'']"
  by (simp add: stripped_nonempty_def py_split_def strip_def isspace_def ascii_def)

text \<open>The script "Hook" / "A. B": the points are "A", "B" and the empty string.\<close>

theorem two_line_script_witness:
  "stripped_nonempty (py_split 10 (ascii ''Hook'' @ [10] @ ascii ''A. B'')) = [ascii ''Hook'', ascii ''A. B'']
   \<and> split_script_to_segments (ascii ''Hook'' @ [10] @ ascii ''A. B'') (ascii ''vi'') =
      Inr [\<lparr>role = ascii ''hook'', text' = ascii ''Hook'', duration = 8, start = 0, end' = 8\<rparr>,
           \<lparr>role = ascii ''point1'', text' = ascii ''A'', duration = 15, start = 8, end' = 23\<rparr>,
           \<lparr>role = ascii ''point2'', text' = ascii ''B'', duration = 15, start = 23, end' = 38\<rparr>,
           \<lparr>role = ascii ''point3'', text' = [], duration = 15, start = 38, end' = 53\<rparr>,
           \<lparr>role = ascii ''cta'', text' = ascii ''A. B'', duration = 7, start = 53, end' = 60\<rparr>]"
  using two_line_script [OF parts_hook_ab, of "ascii ''vi''"]
  unfolding sents_ab parts_hook_ab by (simp add: ascii_def)

lemma segments_hook_ab:
  "split_script_to_segments (ascii ''Hook'' @ [10] @ ascii ''A. B'') (ascii ''vi'') =
      Inr [\<lparr>role = ascii ''hook'', text' = ascii ''Hook'', duration = 8, start = 0, end' = 8\<rparr>,
           \<lparr>role = ascii ''point1'', text' = ascii ''A'', duration = 15, start = 8, end' = 23\<rparr>,
           \<lparr>role = ascii ''point2'', text' = ascii ''B'', duration = 15, start = 23, end' = 38\<rparr>,
           \<lparr>role = ascii ''point3'', text' = [], duration = 15, start = 38, end' = 53\<rparr>,
           \<lparr>role = ascii ''cta'', text' = ascii ''A. B'', duration = 7, start = 53, end' = 60\<rparr>]"
proof -
  have "pad_points (collect_points [] [ascii ''A. B'']) = [ascii ''A'', ascii ''B'', []]"
    unfolding points_of_single_line sents_ab by simp
  then show ?thesis
    unfolding split_script_to_segments_def Let_def parts_hook_ab
    by (simp add: point_slots_three)
qed

text \<open>
  C5 as stated fails: the script "Hook" / "A. B" has exactly two non-empty lines, and
  its first two point segments are "A" and "B", not empty.
\<close>

theorem two_line_points_counterexample:
  "stripped_nonempty (py_split 10 (ascii ''Hook'' @ [10] @ ascii ''A. B''))
     = [ascii ''Hook'', ascii ''A. B'']
   \<and> split_script_to_segments (ascii ''Hook'' @ [10] @ ascii ''A. B'') (ascii ''vi'') \<noteq>
      Inr [\<lparr>role = ascii ''hook'', text' = ascii ''Hook'', duration = 8, start = 0, end' = 8\<rparr>,
           \<lparr>role = ascii ''point1'', text' = [], duration = 15, start = 8, end' = 23\<rparr>,
           \<lparr>role = ascii ''point2'', text' = [], duration = 15, start = 23, end' = 38\<rparr>,
           \<lparr>role = ascii ''point3'', text' = [], duration = 15, start = 38, end' = 53\<rparr>,
           \<lparr>role = ascii ''cta'', text' = ascii ''A. B'', duration = 7, start = 53, end' = 60\<rparr>]"
  unfolding segments_hook_ab parts_hook_ab by (simp add: ascii_def)

section \<open>Properties of the fallback synthesizers\<close>

lemma sentences_A_to_G:
  "split_sentences (ascii ''A. B. C. D. E. F. G.'') = [[65], [66], [67], [68], [69], [70], [71]]"
  by (simp add: split_sentences_def stripped_nonempty_def py_split_def py_replace_def strip_def
      isspace_def ascii_def)

lemma long_A_to_G_vi:
  "local_fallback_formatter_long (ascii ''T'') (ascii ''A. B. C. D. E. F. G.'') (ascii ''vi'')
     = ascii ''A. B C D E F. G. '' @ LONG_CTA_VI"
  unfolding local_fallback_formatter_long_def sentences_A_to_G
  by (simp add: py_slice_def startswith_def ascii_def)

text \<open>
  C4 as stated fails: on the summary "A. B. C. D. E. F. G." the output of the long
  synthesizer does not contain "B. C. D. E. F".
\<close>

theorem long_middle_counterexample:
  "\<not> sublist (ascii ''B. C. D. E. F'')
       (local_fallback_formatter_long (ascii ''T'') (ascii ''A. B. C. D. E. F. G.'')
          (ascii ''vi''))"
  unfolding long_A_to_G_vi
  by (simp add: ascii_def LONG_CTA_VI_def sublist_Cons_right)

lemma case_drop_nth:
  "(case drop n xs of [] \<Rightarrow> [] | c # _ \<Rightarrow> c) = (if n < length xs then xs ! n else [])"
  by (cases "n < length xs") (simp_all add: Cons_nth_drop_Suc[symmetric])

text \<open>
  C4 (as amended). The long synthesizer returns "intro. middle. closing. CTA" where intro
  is the first sentence of the summary (or the topic followed by the fixed placeholder
  when there is none), closing is sentence 6 if present and empty otherwise, and the
  middle is sentences 1 to 5 joined by a single space, not by period-space: on the
  summary "A. B. C. D. E. F. G." the result is "A. B C D E F. G." followed by the CTA.
\<close>

theorem long_formatter_structure:
  "local_fallback_formatter_long topic summary lang = spec_long (ascii '' '') topic summary lang
   \<and> local_fallback_formatter_long (ascii ''T'') (ascii ''A. B. C. D. E. F. G.'') (ascii ''vi'')
       = ascii ''A. B C D E F. G. '' @ LONG_CTA_VI"
proof (cases "split_sentences summary")
  case Nil
  then show ?thesis
    by (simp add: long_A_to_G_vi)
       (simp add: local_fallback_formatter_long_def spec_long_def spec_long_cta_def py_slice_def)
next
  case (Cons first rest)
  then show ?thesis
    by (simp add: long_A_to_G_vi)
       (simp add: local_fallback_formatter_long_def spec_long_def spec_long_cta_def py_slice_def
        case_drop_nth)
qed

lemma sentences_8:
  "split_sentences (ascii ''A. B. C. D. E. F. G. H.'') = [[65], [66], [67], [68], [69], [70], [71], [72]]"
  by (simp add: split_sentences_def stripped_nonempty_def py_split_def py_replace_def strip_def
      isspace_def ascii_def)

lemma fromsummary_8:
  "local_fallback_formatter_fromsummary (ascii ''A. B. C. D. E. F. G. H.'') (ascii ''en'')
     = ascii ''A B C D E F Sources: Wikipedia.''"
  unfolding local_fallback_formatter_fromsummary_def sentences_8
  by (simp add: py_slice_def startswith_def ascii_def SOURCE_EN_def)

lemma spec_fromsummary_8:
  "spec_fromsummary (ascii ''. '') (ascii ''A. B. C. D. E. F. G. H.'') (ascii ''en'')
     = ascii ''A. B. C. D. E. F Sources: Wikipedia.''"
  unfolding spec_fromsummary_def sentences_8
  by (simp add: spec_attribution_def startswith_def ascii_def SOURCE_EN_def)

text \<open>
  C6 as stated fails: on a summary of eight sentences the output is not the first six
  sentences joined by period-space followed by the attribution suffix.
\<close>

theorem fromsummary_counterexample:
  "local_fallback_formatter_fromsummary (ascii ''A. B. C. D. E. F. G. H.'') (ascii ''en'')
     \<noteq> spec_fromsummary (ascii ''. '') (ascii ''A. B. C. D. E. F. G. H.'') (ascii ''en'')"
  unfolding fromsummary_8 spec_fromsummary_8 by (simp add: ascii_def)

text \<open>
  C6 (as amended). The from-summary synthesizer returns sentences 0 to 5 of the summary
  joined by a single space (not by period-space), followed by the attribution suffix of
  the language, so the result ends with that suffix; on the eight sentences
  "A. B. C. D. E. F. G. H." the result is "A B C D E F Sources: Wikipedia.".
\<close>

theorem fromsummary_structure:
  "local_fallback_formatter_fromsummary summary lang
     = spec_fromsummary (ascii '' '') summary lang
   \<and> suffix (spec_attribution lang) (local_fallback_formatter_fromsummary summary lang)
   \<and> local_fallback_formatter_fromsummary (ascii ''A. B. C. D. E. F. G. H.'') (ascii ''en'')
       = ascii ''A B C D E F Sources: Wikipedia.''"
  by (simp add: fromsummary_8)
     (simp add: local_fallback_formatter_fromsummary_def spec_fromsummary_def
        spec_attribution_def py_slice_def suffix_def)

lemma py_replace_idem: "py_replace 10 32 (py_replace 10 32 s) = py_replace 10 32 s"
  by (simp add: py_replace_def)

lemma sentences_newlines: "split_sentences (py_replace 10 32 summary) = split_sentences summary"
  by (simp add: split_sentences_def py_replace_idem)

text \<open>
  C10. Each of the three fallback synthesizers gives the same output on a summary and on
  that summary with every newline replaced by a space.
\<close>

theorem synthesizers_newline_invariant:
  "local_fallback_formatter_long topic (py_replace 10 32 summary) lang
     = local_fallback_formatter_long topic summary lang
   \<and> local_fallback_formatter_fromsummary (py_replace 10 32 summary) lang
     = local_fallback_formatter_fromsummary summary lang
   \<and> local_fallback_formatter_short topic (py_replace 10 32 summary) lang
     = local_fallback_formatter_short topic summary lang"
  by (simp add: local_fallback_formatter_long_def local_fallback_formatter_fromsummary_def
      local_fallback_formatter_short_def sentences_newlines)

section \<open>Properties of the generation strategy\<close>

lemma vi_neq_en: "ascii ''vi'' \<noteq> ascii ''en''"
  by (simp add: ascii_def)

lemma render_prompt_long:
  "\<exists>p. render_prompt PROMPT_LONG (lang_key lang) v = Inr p"
  by (simp add: render_prompt_def lang_key_def PROMPT_LONG_def vi_neq_en)

lemma render_prompt_from_summary:
  "\<exists>p. render_prompt PROMPT_FROM_SUMMARY (lang_key lang) v = Inr p"
  by (simp add: render_prompt_def lang_key_def PROMPT_FROM_SUMMARY_def vi_neq_en)

lemma render_prompt_short:
  "\<exists>p. render_prompt PROMPT_SHORT (lang_key lang) v = Inr p"
  by (simp add: render_prompt_def lang_key_def PROMPT_SHORT_def vi_neq_en)

lemma long_nonempty: "local_fallback_formatter_long topic summary lang \<noteq> []"
  by (simp add: local_fallback_formatter_long_def Let_def ascii_def)

lemma fromsummary_nonempty: "local_fallback_formatter_fromsummary summary lang \<noteq> []"
  by (simp add: local_fallback_formatter_fromsummary_def Let_def ascii_def SOURCE_VI_def SOURCE_EN_def)

lemma short_nonempty: "local_fallback_formatter_short topic summary lang \<noteq> []"
  by (simp add: local_fallback_formatter_short_def Let_def ascii_def)

text \<open>The text stored by one try block.\<close>

lemma long_entry:
  "long (generate_three_scripts env topic summary lang) = Some
     (case (if OPENAI_AVAILABLE env \<and> truthy (OPENAI_API_KEY env)
            then (case render_prompt PROMPT_LONG (lang_key lang) topic of
                    Inl e \<Rightarrow> Inl e
                  | Inr prompt \<Rightarrow> call_openai env prompt DEFAULT_MODEL)
            else Inr (local_fallback_formatter_long topic summary lang)) of
        Inl e \<Rightarrow> local_fallback_formatter_long topic summary lang
      | Inr s \<Rightarrow> s)"
  by (simp add: generate_three_scripts_def Let_def)

lemma from_summary_entry:
  "from_summary (generate_three_scripts env topic summary lang) = Some
     (case (if OPENAI_AVAILABLE env \<and> truthy (OPENAI_API_KEY env)
            then (case render_prompt PROMPT_FROM_SUMMARY (lang_key lang) summary of
                    Inl e \<Rightarrow> Inl e
                  | Inr prompt \<Rightarrow> call_openai env prompt DEFAULT_MODEL)
            else Inr (local_fallback_formatter_fromsummary summary lang)) of
        Inl e \<Rightarrow> local_fallback_formatter_fromsummary summary lang
      | Inr s \<Rightarrow> s)"
  by (simp add: generate_three_scripts_def Let_def)

lemma short_entry:
  "short (generate_three_scripts env topic summary lang) = Some
     (case (if OPENAI_AVAILABLE env \<and> truthy (OPENAI_API_KEY env)
            then (case render_prompt PROMPT_SHORT (lang_key lang) topic of
                    Inl e \<Rightarrow> Inl e
                  | Inr prompt \<Rightarrow> call_openai env prompt DEFAULT_MODEL)
            else Inr (local_fallback_formatter_short topic summary lang)) of
        Inl e \<Rightarrow> local_fallback_formatter_short topic summary lang
      | Inr s \<Rightarrow> s)"
  by (simp add: generate_three_scripts_def Let_def)

text \<open>
  C3. For each variant on its own: when the openai package is unavailable, or the key is
  absent or empty, or the external call for the prompt of that variant raises, the entry
  of the script set for that variant is exactly the output of that variant's fallback
  synthesizer on the same topic, summary and language.
\<close>

theorem fallback_when_external_unavailable:
  "((\<not> OPENAI_AVAILABLE env \<or> \<not> truthy (OPENAI_API_KEY env)
      \<or> (\<exists>p e. render_prompt PROMPT_LONG (lang_key lang) topic = Inr p
                \<and> call_openai env p DEFAULT_MODEL = Inl e))
     \<longrightarrow> long (generate_three_scripts env topic summary lang)
          = Some (local_fallback_formatter_long topic summary lang))
   \<and> ((\<not> OPENAI_AVAILABLE env \<or> \<not> truthy (OPENAI_API_KEY env)
      \<or> (\<exists>p e. render_prompt PROMPT_FROM_SUMMARY (lang_key lang) summary = Inr p
                \<and> call_openai env p DEFAULT_MODEL = Inl e))
     \<longrightarrow> from_summary (generate_three_scripts env topic summary lang)
          = Some (local_fallback_formatter_fromsummary summary lang))
   \<and> ((\<not> OPENAI_AVAILABLE env \<or> \<not> truthy (OPENAI_API_KEY env)
      \<or> (\<exists>p e. render_prompt PROMPT_SHORT (lang_key lang) topic = Inr p
                \<and> call_openai env p DEFAULT_MODEL = Inl e))
     \<longrightarrow> short (generate_three_scripts env topic summary lang)
          = Some (local_fallback_formatter_short topic summary lang))"
proof (intro conjI impI)
  assume "\<not> OPENAI_AVAILABLE env \<or> \<not> truthy (OPENAI_API_KEY env)
      \<or> (\<exists>p e. render_prompt PROMPT_LONG (lang_key lang) topic = Inr p
                \<and> call_openai env p DEFAULT_MODEL = Inl e)"
  then show "long (generate_three_scripts env topic summary lang)
          = Some (local_fallback_formatter_long topic summary lang)"
    unfolding long_entry by auto
next
  assume "\<not> OPENAI_AVAILABLE env \<or> \<not> truthy (OPENAI_API_KEY env)
      \<or> (\<exists>p e. render_prompt PROMPT_FROM_SUMMARY (lang_key lang) summary = Inr p
                \<and> call_openai env p DEFAULT_MODEL = Inl e)"
  then show "from_summary (generate_three_scripts env topic summary lang)
          = Some (local_fallback_formatter_fromsummary summary lang)"
    unfolding from_summary_entry by auto
next
  assume "\<not> OPENAI_AVAILABLE env \<or> \<not> truthy (OPENAI_API_KEY env)
      \<or> (\<exists>p e. render_prompt PROMPT_SHORT (lang_key lang) topic = Inr p
                \<and> call_openai env p DEFAULT_MODEL = Inl e)"
  then show "short (generate_three_scripts env topic summary lang)
          = Some (local_fallback_formatter_short topic summary lang)"
    unfolding short_entry by auto
qed

lemma call_openai_down: "call_openai env_down p m = Inl (External (ascii ''service down''))"
  by (simp add: call_openai_def env_down_def env_offline_def ascii_def)

lemma call_openai_blank: "call_openai env_blank p m = Inr []"
  by (simp add: call_openai_def env_blank_def env_offline_def ascii_def strip_def isspace_def)

text \<open>
  The same with package and key present and a service that raises on every request.
\<close>

theorem fallback_when_external_unavailable_witness:
  "OPENAI_AVAILABLE env_down \<and> truthy (OPENAI_API_KEY env_down)
   \<and> long (generate_three_scripts env_down (ascii ''Rome'') [] (ascii ''en''))
       = Some (local_fallback_formatter_long (ascii ''Rome'') [] (ascii ''en''))
   \<and> from_summary (generate_three_scripts env_down (ascii ''Rome'') [] (ascii ''en''))
       = Some (local_fallback_formatter_fromsummary [] (ascii ''en''))
   \<and> short (generate_three_scripts env_down (ascii ''Rome'') [] (ascii ''en''))
       = Some (local_fallback_formatter_short (ascii ''Rome'') [] (ascii ''en''))"
proof -
  have a: "OPENAI_AVAILABLE env_down \<and> truthy (OPENAI_API_KEY env_down)"
    by (simp add: env_down_def env_offline_def ascii_def)
  obtain p1 where p1: "render_prompt PROMPT_LONG (lang_key (ascii ''en'')) (ascii ''Rome'') = Inr p1"
    using render_prompt_long by blast
  obtain p2 where p2: "render_prompt PROMPT_FROM_SUMMARY (lang_key (ascii ''en'')) [] = Inr p2"
    using render_prompt_from_summary by blast
  obtain p3 where p3: "render_prompt PROMPT_SHORT (lang_key (ascii ''en'')) (ascii ''Rome'') = Inr p3"
    using render_prompt_short by blast
  show ?thesis
    using a p1 p2 p3 call_openai_down
      fallback_when_external_unavailable [of env_down "ascii ''en''" "ascii ''Rome''" "[]"]
    by blast
qed

lemma scripts_all_some:
  "\<exists>l f s. generate_three_scripts env topic summary lang
             = \<lparr>long = Some l, from_summary = Some f, short = Some s\<rparr>"
proof -
  obtain l where l: "long (generate_three_scripts env topic summary lang) = Some l"
    using long_entry by blast
  obtain f where f: "from_summary (generate_three_scripts env topic summary lang) = Some f"
    using from_summary_entry by blast
  obtain s where s: "short (generate_three_scripts env topic summary lang) = Some s"
    using short_entry by blast
  have "generate_three_scripts env topic summary lang
             = \<lparr>long = Some l, from_summary = Some f, short = Some s\<rparr>"
    using l f s by (cases "generate_three_scripts env topic summary lang") simp
  then show ?thesis by blast
qed

text \<open>
  C2 (as amended). For every topic, summary and language (the empty strings included)
  the generation strategy returns, without raising, a script set whose three entries are
  strings. An entry is non-empty whenever it comes from the fallback synthesizer or from
  an external reply with some non-whitespace content: it is empty only when the external
  call for that variant succeeds with a reply that is empty after trimming.
\<close>

theorem scripts_populated:
  "\<exists>l f s. generate_three_scripts env topic summary lang
             = \<lparr>long = Some l, from_summary = Some f, short = Some s\<rparr>
     \<and> (l \<noteq> [] \<or> (OPENAI_AVAILABLE env \<and> truthy (OPENAI_API_KEY env)
           \<and> (\<exists>p. render_prompt PROMPT_LONG (lang_key lang) topic = Inr p
                  \<and> call_openai env p DEFAULT_MODEL = Inr [])))
     \<and> (f \<noteq> [] \<or> (OPENAI_AVAILABLE env \<and> truthy (OPENAI_API_KEY env)
           \<and> (\<exists>p. render_prompt PROMPT_FROM_SUMMARY (lang_key lang) summary = Inr p
                  \<and> call_openai env p DEFAULT_MODEL = Inr [])))
     \<and> (s \<noteq> [] \<or> (OPENAI_AVAILABLE env \<and> truthy (OPENAI_API_KEY env)
           \<and> (\<exists>p. render_prompt PROMPT_SHORT (lang_key lang) topic = Inr p
                  \<and> call_openai env p DEFAULT_MODEL = Inr [])))"
proof -
  obtain l where l: "long (generate_three_scripts env topic summary lang) = Some l"
    using long_entry by blast
  obtain f where f: "from_summary (generate_three_scripts env topic summary lang) = Some f"
    using from_summary_entry by blast
  obtain s where s: "short (generate_three_scripts env topic summary lang) = Some s"
    using short_entry by blast
  obtain p1 where p1: "render_prompt PROMPT_LONG (lang_key lang) topic = Inr p1"
    using render_prompt_long by blast
  obtain p2 where p2: "render_prompt PROMPT_FROM_SUMMARY (lang_key lang) summary = Inr p2"
    using render_prompt_from_summary by blast
  obtain p3 where p3: "render_prompt PROMPT_SHORT (lang_key lang) topic = Inr p3"
    using render_prompt_short by blast
  have eq: "generate_three_scripts env topic summary lang
             = \<lparr>long = Some l, from_summary = Some f, short = Some s\<rparr>"
    using l f s by (cases "generate_three_scripts env topic summary lang") simp
  have L: "l \<noteq> [] \<or> (OPENAI_AVAILABLE env \<and> truthy (OPENAI_API_KEY env)
           \<and> call_openai env p1 DEFAULT_MODEL = Inr [])"
    using l long_nonempty [of topic summary lang] unfolding long_entry p1
    by (auto split: if_splits sum.splits)
  have F: "f \<noteq> [] \<or> (OPENAI_AVAILABLE env \<and> truthy (OPENAI_API_KEY env)
           \<and> call_openai env p2 DEFAULT_MODEL = Inr [])"
    using f fromsummary_nonempty [of summary lang] unfolding from_summary_entry p2
    by (auto split: if_splits sum.splits)
  have S: "s \<noteq> [] \<or> (OPENAI_AVAILABLE env \<and> truthy (OPENAI_API_KEY env)
           \<and> call_openai env p3 DEFAULT_MODEL = Inr [])"
    using s short_nonempty [of topic summary lang] unfolding short_entry p3
    by (auto split: if_splits sum.splits)
  show ?thesis
    using eq L F S p1 p2 p3 by blast
qed

text \<open>
  With the openai package missing, empty topic and empty summary: three non-empty entries.
\<close>

theorem scripts_populated_witness:
  "\<not> OPENAI_AVAILABLE env_offline
   \<and> (\<exists>l f s. generate_three_scripts env_offline [] [] (ascii ''vi'')
                = \<lparr>long = Some l, from_summary = Some f, short = Some s\<rparr>
         \<and> l \<noteq> [] \<and> f \<noteq> [] \<and> s \<noteq> [])"
proof -
  have a: "\<not> OPENAI_AVAILABLE env_offline" by (simp add: env_offline_def)
  show ?thesis
    using a scripts_populated [of env_offline "[]" "[]" "ascii ''vi''"] by blast
qed

text \<open>
  C2 as stated fails: when the service answers with one space, the long entry is the
  empty string.
\<close>

theorem empty_reply_counterexample:
  "long (generate_three_scripts env_blank (ascii ''Rome'') (ascii ''Rome is old.'') (ascii ''en''))
     = Some []"
proof -
  have a: "OPENAI_AVAILABLE env_blank \<and> truthy (OPENAI_API_KEY env_blank)"
    by (simp add: env_blank_def env_offline_def ascii_def)
  obtain p where p: "render_prompt PROMPT_LONG (lang_key (ascii ''en'')) (ascii ''Rome'') = Inr p"
    using render_prompt_long by blast
  show ?thesis
    unfolding long_entry p using a by (simp add: call_openai_blank)
qed

section \<open>Properties of the orchestrator\<close>

lemma process_topic_use_ai:
  "process_topic env topic lang out_folder u = process_topic env topic lang out_folder u'"
  by (simp add: process_topic_def)

lemma main_loop_no_ai:
  "main_loop env (a\<lparr>args_no_ai := b\<rparr>) ts r = main_loop env a ts r"
proof (induction ts arbitrary: r)
  case Nil
  show ?case by simp
next
  case (Cons t ts)
  have "process_topic env t (args_lang a) (args_out_folder a) (\<not> b)
          = process_topic env t (args_lang a) (args_out_folder a) (\<not> args_no_ai a)"
    by (rule process_topic_use_ai)
  then show ?case
    by (simp add: Cons.IH Let_def split: sum.splits)
qed

text \<open>
  C8. The toggle does not reach the generation strategy: \<open>process_topic\<close> gives the same
  result (paths, document, summary, scripts and segments) for both values of \<open>use_ai\<close>,
  and a whole run is the same with and without \<open>--no_ai\<close>.
\<close>

theorem toggle_ignored:
  "process_topic env topic lang out_folder True = process_topic env topic lang out_folder False
   \<and> main env (c\<lparr>no_ai_given := True\<rparr>) = main env (c\<lparr>no_ai_given := False\<rparr>)"
proof
  show "process_topic env topic lang out_folder True = process_topic env topic lang out_folder False"
    by (rule process_topic_use_ai)
next
  show "main env (c\<lparr>no_ai_given := True\<rparr>) = main env (c\<lparr>no_ai_given := False\<rparr>)"
  proof (cases "topics_given c")
    case None
    then show ?thesis by (simp add: main_def parse_args_def)
  next
    case (Some t)
    let ?a = "\<lparr>args_topics = t,
               args_lang = (case lang_given c of None \<Rightarrow> ascii ''vi'' | Some l \<Rightarrow> l),
               args_out_folder =
                 (case out_folder_given c of None \<Rightarrow> ascii ''./outputs'' | Some d \<Rightarrow> d),
               args_no_ai = False\<rparr>"
    have "main_loop env (?a\<lparr>args_no_ai := True\<rparr>) ts r = main_loop env ?a ts r" for ts r
      by (rule main_loop_no_ai)
    with Some show ?thesis by (simp add: main_def parse_args_def Let_def)
  qed
qed

text \<open>
  C9 (as amended). Without \<open>--topics\<close> the program exits with the usage error (status 2)
  before it prints or processes anything. With a topic list that is empty after trimming
  and discarding blank entries there is no usage error: no topic is processed, the program
  prints "Done." and ends normally.
\<close>

theorem missing_or_empty_topics:
  "(topics_given c = None
      \<longrightarrow> main env c = \<lparr>stdout = [], outputs = [], ending = SystemExit 2\<rparr>)
   \<and> (\<forall>t. topics_given c = Some t \<and> stripped_nonempty (py_split 44 t) = []
      \<longrightarrow> main env c = \<lparr>stdout = [ascii ''Done.''], outputs = [], ending = Done\<rparr>)"
  by (simp add: main_def parse_args_def Let_def)

lemma blank_parts: "stripped_nonempty (py_split 44 (ascii '' , '')) = []"
  by (simp add: stripped_nonempty_def py_split_def strip_def isspace_def ascii_def)

lemma empty_parts: "stripped_nonempty (py_split 44 []) = []"
  by (simp add: stripped_nonempty_def py_split_def strip_def)

text \<open>Both cases on concrete command lines.\<close>

theorem missing_or_empty_topics_witness:
  "topics_given no_topics = None
   \<and> main env_offline no_topics = \<lparr>stdout = [], outputs = [], ending = SystemExit 2\<rparr>
   \<and> topics_given empty_topics = Some [] \<and> stripped_nonempty (py_split 44 []) = []
   \<and> main env_offline empty_topics = \<lparr>stdout = [ascii ''Done.''], outputs = [], ending = Done\<rparr>"
proof -
  have a: "topics_given no_topics = None" by (simp add: no_topics_def)
  have b: "topics_given empty_topics = Some []" by (simp add: empty_topics_def)
  show ?thesis
    using a b empty_parts missing_or_empty_topics [of no_topics env_offline]
      missing_or_empty_topics [of empty_topics env_offline]
    by blast
qed

text \<open>
  C9 as stated fails: with \<open>--topics " , "\<close> the list is empty after trimming, and the
  run ends normally after printing "Done.".
\<close>

theorem empty_topics_counterexample:
  "topics_given blank_topics = Some (ascii '' , '')
   \<and> stripped_nonempty (py_split 44 (ascii '' , '')) = []
   \<and> main env_offline blank_topics = \<lparr>stdout = [ascii ''Done.''], outputs = [], ending = Done\<rparr>"
  by (simp add: blank_parts) (simp add: main_def parse_args_def blank_topics_def blank_parts)

text \<open>
  C7. When fetching the summary raises, and the file system accepts the writes, then
  \<open>process_topic\<close> does not raise: the record it dumps has the topic, the language, the
  placeholder summary with the message of the exception in it (so not empty), the three
  scripts generated from that summary, all present, and the five segments of the short
  script.
\<close>

theorem summary_failure_degrades:
  assumes "fetch_wikipedia_summary env topic lang 6 = Inl e"
    and "os_makedirs env out_folder = None"
    and "\<forall>f. open_write env f = None"
    and "\<forall>f d. file_write env f d = None"
    and "\<forall>f m. json_dump env f m = None"
  shows "\<exists>out short_text.
           process_topic env topic lang out_folder use_ai = Inr out
         \<and> meta_topic (out_meta out) = topic
         \<and> meta_lang (out_meta out) = lang
         \<and> meta_summary (out_meta out) = SUMMARY_PLACEHOLDER_PREFIX @ str_exn e @ ascii '']''
         \<and> meta_summary (out_meta out) \<noteq> []
         \<and> meta_scripts (out_meta out)
             = generate_three_scripts env topic (meta_summary (out_meta out)) lang
         \<and> long (meta_scripts (out_meta out)) \<noteq> None
         \<and> from_summary (meta_scripts (out_meta out)) \<noteq> None
         \<and> short (meta_scripts (out_meta out)) = Some short_text
         \<and> split_script_to_segments short_text lang = Inr (meta_segments (out_meta out))
         \<and> length (meta_segments (out_meta out)) = 5"
proof -
  let ?summary = "SUMMARY_PLACEHOLDER_PREFIX @ str_exn e @ ascii '']''"
  let ?scripts = "generate_three_scripts env topic ?summary lang"
  obtain l f s where g: "?scripts = \<lparr>long = Some l, from_summary = Some f, short = Some s\<rparr>"
    using scripts_all_some [of env topic ?summary lang] by blast
  obtain segs where segs: "split_script_to_segments s lang = Inr segs" and len: "length segs = 5"
    using split_script_to_segments_shape [of s lang] by fastforce
  have ne: "?summary \<noteq> []" by (simp add: ascii_def)
  have doc: "\<exists>d. text_document topic ?summary ?scripts segs = Inr d"
    by (simp add: text_document_def g)
  then obtain d where d: "text_document topic ?summary ?scripts segs = Inr d" by blast
  have "process_topic env topic lang out_folder use_ai =
          Inr \<lparr>out_txt_file = os_path_join env out_folder
                  (ascii ''script_'' @ py_replace 47 95 (py_replace 32 95 topic) @ ascii ''.txt''),
               out_json_file = os_path_join env out_folder
                  (ascii ''script_'' @ py_replace 47 95 (py_replace 32 95 topic) @ ascii ''.json''),
               out_document = d,
               out_meta = \<lparr>meta_topic = topic, meta_lang = lang, meta_summary = ?summary,
                            meta_scripts = ?scripts, meta_segments = segs\<rparr>\<rparr>"
    unfolding process_topic_def Let_def
    using assms by (simp add: g segs d [unfolded g])
  then show ?thesis
    using ne g segs len by simp
qed

lemma fetch_offline:
  "fetch_wikipedia_summary env_offline t l n =
     Inl (RuntimeError (ascii ''Package wikipedia kh'' @ [244] @ ascii ''ng c'' @ [243]
            @ ascii ''. C'' @ [224] @ ascii ''i: pip install wikipedia''))"
  by (simp add: fetch_wikipedia_summary_def env_offline_def)

text \<open>With the wikipedia package missing and a file system that accepts everything.\<close>

theorem summary_failure_degrades_witness:
  "\<exists>out short_text.
       process_topic env_offline (ascii ''Rome'') (ascii ''en'') (ascii ''out'') True = Inr out
     \<and> meta_topic (out_meta out) = ascii ''Rome''
     \<and> meta_lang (out_meta out) = ascii ''en''
     \<and> meta_summary (out_meta out) =
         SUMMARY_PLACEHOLDER_PREFIX
         @ str_exn (RuntimeError (ascii ''Package wikipedia kh'' @ [244] @ ascii ''ng c'' @ [243]
                      @ ascii ''. C'' @ [224] @ ascii ''i: pip install wikipedia''))
         @ ascii '']''
     \<and> meta_summary (out_meta out) \<noteq> []
     \<and> meta_scripts (out_meta out)
         = generate_three_scripts env_offline (ascii ''Rome'') (meta_summary (out_meta out))
             (ascii ''en'')
     \<and> long (meta_scripts (out_meta out)) \<noteq> None
     \<and> from_summary (meta_scripts (out_meta out)) \<noteq> None
     \<and> short (meta_scripts (out_meta out)) = Some short_text
     \<and> split_script_to_segments short_text (ascii ''en'') = Inr (meta_segments (out_meta out))
     \<and> length (meta_segments (out_meta out)) = 5"
proof -
  have a: "os_makedirs env_offline (ascii ''out'') = None"
    and b: "\<forall>f. open_write env_offline f = None"
    and c: "\<forall>f d. file_write env_offline f d = None"
    and d: "\<forall>f m. json_dump env_offline f m = None"
    by (simp_all add: env_offline_def)
  show ?thesis
    by (rule summary_failure_degrades [OF fetch_offline a b c d])
qed

end
